theory Spec2Isabelle
  imports Main
begin

section \<open>Strings, paths and files\<close>

text \<open>
  Python strings are modelled as \<open>string\<close>; the model covers ASCII text, where a
  \<open>char\<close> is one code point. The characters that cannot be written inside a string
  literal get a name.
\<close>

abbreviation TAB :: char where "TAB \<equiv> CHR 0x09"
abbreviation LF :: char where "LF \<equiv> CHR 0x0A"
abbreviation VT :: char where "VT \<equiv> CHR 0x0B"
abbreviation FF :: char where "FF \<equiv> CHR 0x0C"
abbreviation CR :: char where "CR \<equiv> CHR 0x0D"
abbreviation DQ :: char where "DQ \<equiv> CHR 0x22"
abbreviation SQ :: char where "SQ \<equiv> CHR 0x27"
abbreviation BSL :: char where "BSL \<equiv> CHR 0x5C"

text \<open>\<^verbatim>\<open>s.startswith(p)\<close>\<close>

definition startswith :: "string \<Rightarrow> string \<Rightarrow> bool" where
  "startswith s p = (take (length p) s = p)"

text \<open>\<^verbatim>\<open>sub in s\<close>: \<open>sub\<close> occurs in \<open>s\<close> as a contiguous substring.\<close>

fun contains :: "string \<Rightarrow> string \<Rightarrow> bool" where
  "contains sub [] = (sub = [])"
| "contains sub (c # cs) = (startswith (c # cs) sub \<or> contains sub cs)"

text \<open>
  \<^verbatim>\<open>os.path.join(a, b)\<close> of \<^verbatim>\<open>posixpath\<close>: an absolute \<open>b\<close> discards \<open>a\<close>;
  otherwise a separator is inserted unless \<open>a\<close> is empty or already ends in one.
\<close>

definition os_path_join :: "string \<Rightarrow> string \<Rightarrow> string" where
  "os_path_join a b =
     (if startswith b ''/'' then b
      else if a = [] \<or> last a = CHR ''/'' then a @ b
      else a @ ''/'' @ b)"

text \<open>
  The file system: the regular files with their text, and the directories with the
  entry names \<^verbatim>\<open>os.listdir\<close> returns for them. Permissions, links and devices are
  outside the model.
\<close>

record filesystem =
  files :: "string \<rightharpoonup> string"
  dirs :: "string \<rightharpoonup> string list"

text \<open>\<^verbatim>\<open>os.path.isfile(p)\<close>\<close>

definition isfile :: "filesystem \<Rightarrow> string \<Rightarrow> bool" where
  "isfile fs p = (files fs p \<noteq> None)"

text \<open>
  A file opened in text mode is read with universal newlines: \<^verbatim>\<open>\r\n\<close> and a lone
  \<^verbatim>\<open>\r\<close> arrive as \<^verbatim>\<open>\n\<close>.
\<close>

fun universal_newlines :: "string \<Rightarrow> string" where
  "universal_newlines [] = []"
| "universal_newlines [c] = (if c = CR then [LF] else [c])"
| "universal_newlines (c # d # cs) =
     (if c = CR \<and> d = LF then LF # universal_newlines cs
      else if c = CR then LF # universal_newlines (d # cs)
      else c # universal_newlines (d # cs))"

text \<open>
  \<^verbatim>\<open>for line in f\<close>: the lines of the text, each with its terminating \<^verbatim>\<open>\n\<close>; the
  last line has none when the text does not end in one. \<open>acc\<close> is the line read so far.
\<close>

fun readlines_from :: "string \<Rightarrow> string \<Rightarrow> string list" where
  "readlines_from acc [] = (if acc = [] then [] else [acc])"
| "readlines_from acc (c # cs) =
     (if c = LF then (acc @ [c]) # readlines_from [] cs
      else readlines_from (acc @ [c]) cs)"

definition readlines :: "string \<Rightarrow> string list" where
  "readlines text = readlines_from [] (universal_newlines text)"

section \<open>The export pattern\<close>

text \<open>
  \<^verbatim>\<open>re_export\<close> is matched by a backtracking matcher written in continuation style, one
  combinator for each construct the pattern uses. A combinator takes the rest of the
  input and the continuation that matches what follows; \<open>None\<close> is a failed match, and
  on failure the combinator tries its next alternative, in the order of Python's engine
  (greedy quantifiers: the longest repetition first).
\<close>

text \<open>\<^verbatim>\<open>\w\<close> on ASCII text.\<close>

definition is_word :: "char \<Rightarrow> bool" where
  "is_word c =
     (c \<in> set (''abcdefghijklmnopqrstuvwxyz'' @ ''ABCDEFGHIJKLMNOPQRSTUVWXYZ'' @ ''0123456789_''))"

text \<open>\<^verbatim>\<open>[ ]\<close>\<close>

definition is_blank :: "char \<Rightarrow> bool" where
  "is_blank c = (c = CHR '' '')"

text \<open>\<^verbatim>\<open>[\"\']\<close>\<close>

definition is_quote :: "char \<Rightarrow> bool" where
  "is_quote c = (c = DQ \<or> c = SQ)"

text \<open>\<^verbatim>\<open>[\w\.\-\_/\$\{\}\:,\(\)\#\* ]\<close>\<close>

definition is_value_char :: "char \<Rightarrow> bool" where
  "is_value_char c = (is_word c \<or> c \<in> set ''.-_/${}:,()#* '')"

text \<open>A literal string.\<close>

definition lit :: "string \<Rightarrow> string \<Rightarrow> (string \<Rightarrow> 'a option) \<Rightarrow> 'a option" where
  "lit p s k = (if startswith s p then k (drop (length p) s) else None)"

text \<open>\<^verbatim>\<open>a|b\<close>: the left branch first, the right one when the left one (with all that follows) fails.\<close>

definition alt ::
  "(string \<Rightarrow> (string \<Rightarrow> 'a option) \<Rightarrow> 'a option) \<Rightarrow>
   (string \<Rightarrow> (string \<Rightarrow> 'a option) \<Rightarrow> 'a option) \<Rightarrow>
   string \<Rightarrow> (string \<Rightarrow> 'a option) \<Rightarrow> 'a option" where
  "alt a b s k = (case a s k of Some x \<Rightarrow> Some x | None \<Rightarrow> b s k)"

text \<open>
  \<^verbatim>\<open>[...]*\<close>: the continuation receives the text matched and the rest of the input.
\<close>

fun star_cls ::
  "(char \<Rightarrow> bool) \<Rightarrow> string \<Rightarrow> (string \<Rightarrow> string \<Rightarrow> 'a option) \<Rightarrow> 'a option" where
  "star_cls P [] k = k [] []"
| "star_cls P (c # cs) k =
     (if P c
      then (case star_cls P cs (\<lambda>m r. k (c # m) r) of
              Some x \<Rightarrow> Some x
            | None \<Rightarrow> k [] (c # cs))
      else k [] (c # cs))"

text \<open>\<^verbatim>\<open>[...]+\<close>\<close>

definition plus_cls ::
  "(char \<Rightarrow> bool) \<Rightarrow> string \<Rightarrow> (string \<Rightarrow> string \<Rightarrow> 'a option) \<Rightarrow> 'a option" where
  "plus_cls P s k =
     (case s of
        [] \<Rightarrow> None
      | c # cs \<Rightarrow> if P c then star_cls P cs (\<lambda>m r. k (c # m) r) else None)"

text \<open>\<^verbatim>\<open>[...]{0,1}\<close>\<close>

definition opt_cls ::
  "(char \<Rightarrow> bool) \<Rightarrow> string \<Rightarrow> (string \<Rightarrow> string \<Rightarrow> 'a option) \<Rightarrow> 'a option" where
  "opt_cls P s k =
     (case s of
        [] \<Rightarrow> k [] []
      | c # cs \<Rightarrow>
          if P c then (case k [c] cs of Some x \<Rightarrow> Some x | None \<Rightarrow> k [] (c # cs))
          else k [] (c # cs))"

text \<open>
  The second and third piece of the pattern, from the group \<^verbatim>\<open>variable\<close> on:
  \<^verbatim>\<open>(?P<variable>[\w]*)[ ]*[\=][ ]*[\"\']{0,1}(?P<value>[...]*)[\"\']{0,1}\<close>.
  The result is the pair of the groups \<^verbatim>\<open>variable\<close> and \<^verbatim>\<open>value\<close>.
\<close>

definition re_export_assignment :: "string \<Rightarrow> (string \<times> string) option" where
  "re_export_assignment r1 =
     star_cls is_word r1 (\<lambda>variable r2.
     star_cls is_blank r2 (\<lambda>_ r3.
     lit ''='' r3 (\<lambda>r4.
     star_cls is_blank r4 (\<lambda>_ r5.
     opt_cls is_quote r5 (\<lambda>_ r6.
     star_cls is_value_char r6 (\<lambda>value r7.
     opt_cls is_quote r7 (\<lambda>_ _.
     Some (variable, value))))))))"

text \<open>
  \<^verbatim>\<open>re_export.match(line)\<close>: the pattern is tried at the start of the line only, where
  \<^verbatim>\<open>^\<close> holds. Its first piece is \<^verbatim>\<open>^(?P<export>export|EXPORT)( )+\<close>.
\<close>

definition re_export_match :: "string \<Rightarrow> (string \<times> string) option" where
  "re_export_match line =
     alt (lit ''export'') (lit ''EXPORT'') line (\<lambda>r0.
     plus_cls is_blank r0 (\<lambda>_ r1.
     re_export_assignment r1))"

section \<open>envfile2envdict\<close>

text \<open>The loop over the lines of the file: a matching line updates the dictionary.\<close>

fun envfile_loop :: "(string \<rightharpoonup> string) \<Rightarrow> string list \<Rightarrow> (string \<rightharpoonup> string)" where
  "envfile_loop envdict [] = envdict"
| "envfile_loop envdict (line # rest) =
     (case re_export_match line of
        None \<Rightarrow> envfile_loop envdict rest
      | Some (variable, val) \<Rightarrow> envfile_loop (envdict(variable \<mapsto> val)) rest)"

definition envfile2envdict :: "filesystem \<Rightarrow> string \<Rightarrow> string \<Rightarrow> (string \<rightharpoonup> string)" where
  "envfile2envdict fs repo_dirname source_file =
     (let source_file_path = os_path_join repo_dirname source_file in
      case files fs source_file_path of
        None \<Rightarrow> Map.empty
      | Some text \<Rightarrow> envfile_loop Map.empty (readlines text))"

section \<open>copy_cfg_files\<close>

text \<open>\<^verbatim>\<open>str.isspace\<close> on ASCII text, for \<^verbatim>\<open>str.strip()\<close>.\<close>

definition is_space :: "char \<Rightarrow> bool" where
  "is_space c =
     (c \<in> set [TAB, LF, VT, FF, CR, CHR 0x1C, CHR 0x1D, CHR 0x1E, CHR 0x1F, CHR '' ''])"

definition strip :: "string \<Rightarrow> string" where
  "strip s = rev (dropWhile is_space (rev (dropWhile is_space s)))"

text \<open>\<^verbatim>\<open>s.split(sep)\<close> for a separator of one character; \<open>acc\<close> is the field read so far.\<close>

fun split_from :: "char \<Rightarrow> string \<Rightarrow> string \<Rightarrow> string list" where
  "split_from sep acc [] = [acc]"
| "split_from sep acc (c # cs) =
     (if c = sep then acc # split_from sep [] cs else split_from sep (acc @ [c]) cs)"

definition split :: "char \<Rightarrow> string \<Rightarrow> string list" where
  "split sep s = split_from sep [] s"

text \<open>\<^verbatim>\<open>sep.join(xs)\<close>\<close>

fun join :: "string \<Rightarrow> string list \<Rightarrow> string" where
  "join sep [] = []"
| "join sep [x] = x"
| "join sep (x # y # ys) = x @ sep @ join sep (y # ys)"

text \<open>
  \<^verbatim>\<open>re.escape\<close> (Python 3.7 and later): a backslash before each character that can be
  special in a pattern.
\<close>

definition re_special :: "char \<Rightarrow> bool" where
  "re_special c = (c \<in> set (''()[]{}?*+-|^$.&~# '' @ [BSL, TAB, LF, CR, VT, FF]))"

definition re_escape :: "string \<Rightarrow> string" where
  "re_escape s = concat (map (\<lambda>c. if re_special c then [BSL, c] else [c]) s)"

text \<open>
  \<^verbatim>\<open>s.replace(old, new)\<close>: the occurrences of \<open>old\<close> are replaced from left to right,
  without overlap; an empty \<open>old\<close> matches before every character and at the end.
\<close>

fun replace :: "string \<Rightarrow> string \<Rightarrow> string \<Rightarrow> string" where
  "replace old new [] = (if old = [] then new else [])"
| "replace old new (c # cs) =
     (if old = [] then new @ c # replace old new cs
      else if startswith (c # cs) old then new @ replace old new (drop (length old) (c # cs))
      else c # replace old new cs)"

text \<open>Lines 32 to 40: the exclusion pattern built from \<^verbatim>\<open>EXCLUDE_LINT\<close>.\<close>

definition exclude_regex_of :: "string \<Rightarrow> string" where
  "exclude_regex_of exclude_lint =
     (if exclude_lint \<noteq> []
      then ''('' @ join ''|''
             (map (\<lambda>exclude_path. re_escape (strip exclude_path))
                (filter (\<lambda>exclude_path. exclude_path \<noteq> [] \<and> strip exclude_path \<noteq> [])
                   (split (CHR '','') exclude_lint))) @ '')|''
      else [])"

text \<open>Lines 57 to 61: what is written for one line read.\<close>

definition patch_line :: "string \<Rightarrow> string \<Rightarrow> string \<Rightarrow> string \<Rightarrow> string \<Rightarrow> string" where
  "patch_line fname exclude_lint exclude_regex disable_pylint_checks line =
     (let line1 =
            (if exclude_lint \<noteq> [] \<and> startswith fname ''.pre-commit-config''
                \<and> contains ''# EXCLUDE_LINT'' line
             then ''    '' @ exclude_regex @ [LF]
             else line)
      in if disable_pylint_checks \<noteq> [] \<and> startswith fname ''.pre-commit-config''
            \<and> contains ''--disable=R0000'' line1
         then replace ''R0000'' disable_pylint_checks line1
         else line1)"

datatype error =
    CalledProcessError
  | OSError string
  | ValueError
  | UserWarning string

text \<open>
  Lines 55 to 62. \<^verbatim>\<open>open(src, "r")\<close> fails when there is no such file.
  \<^verbatim>\<open>open(dst, "w")\<close> fails when \<open>dst\<close> is a directory or the target directory is
  missing (an entry name has no separator, so the directory of \<open>dst\<close> is
  \<open>repo_dirname\<close>); otherwise it truncates \<open>dst\<close> before the first line of \<open>src\<close> is
  read, which matters when both are the same file. On failure the exception leaves the
  file system as it is at that point.
\<close>

definition copy_file ::
  "string \<Rightarrow> string \<Rightarrow> string \<Rightarrow> string \<Rightarrow> string \<Rightarrow> string \<Rightarrow> string \<Rightarrow>
   filesystem \<Rightarrow> filesystem \<times> error option" where
  "copy_file repo_dirname fname src dst exclude_lint exclude_regex disable_pylint_checks fs =
     (if files fs src = None then (fs, Some (OSError src))
      else if dirs fs dst \<noteq> None \<or> dirs fs repo_dirname = None then (fs, Some (OSError dst))
      else
        let fs1 = fs\<lparr>files := (files fs)(dst \<mapsto> [])\<rparr>;
            lines = (case files fs1 src of None \<Rightarrow> [] | Some text \<Rightarrow> readlines text);
            written = concat (map (patch_line fname exclude_lint exclude_regex
                                     disable_pylint_checks) lines)
        in (fs1\<lparr>files := (files fs1)(dst \<mapsto> written)\<rparr>, None))"

text \<open>Lines 42 to 62: the loop over the listing of the template directory.\<close>

fun copy_cfg_loop ::
  "string \<Rightarrow> string \<Rightarrow> bool \<Rightarrow> string \<Rightarrow> string \<Rightarrow> string \<Rightarrow>
   filesystem \<Rightarrow> string list \<Rightarrow> filesystem \<times> error option" where
  "copy_cfg_loop precommit_config_dir repo_dirname overwrite exclude_lint exclude_regex
     disable_pylint_checks fs [] = (fs, None)"
| "copy_cfg_loop precommit_config_dir repo_dirname overwrite exclude_lint exclude_regex
     disable_pylint_checks fs (fname # rest) =
     (if \<not> startswith fname ''.'' \<and> fname \<noteq> ''pyproject.toml''
      then copy_cfg_loop precommit_config_dir repo_dirname overwrite exclude_lint exclude_regex
             disable_pylint_checks fs rest
      else
        let src = os_path_join precommit_config_dir fname in
        if \<not> isfile fs src
        then copy_cfg_loop precommit_config_dir repo_dirname overwrite exclude_lint exclude_regex
               disable_pylint_checks fs rest
        else
          let dst = os_path_join repo_dirname fname in
          if \<not> overwrite \<and> isfile fs dst
          then copy_cfg_loop precommit_config_dir repo_dirname overwrite exclude_lint
                 exclude_regex disable_pylint_checks fs rest
          else
            (case copy_file repo_dirname fname src dst exclude_lint exclude_regex
                    disable_pylint_checks fs of
               (fs', Some e) \<Rightarrow> (fs', Some e)
             | (fs', None) \<Rightarrow>
                 copy_cfg_loop precommit_config_dir repo_dirname overwrite exclude_lint
                   exclude_regex disable_pylint_checks fs' rest))"

text \<open>
  The result is the file system after the call and the exception raised, if any.
  \<^verbatim>\<open>os.listdir\<close> is read once, before the loop, and fails on a path that is no
  directory. The log lines are not modelled.
\<close>

definition copy_cfg_files ::
  "string \<Rightarrow> string \<Rightarrow> bool \<Rightarrow> string \<Rightarrow> string \<Rightarrow> filesystem \<Rightarrow> filesystem \<times> error option" where
  "copy_cfg_files precommit_config_dir repo_dirname overwrite exclude_lint
     disable_pylint_checks fs =
     (let exclude_regex = exclude_regex_of exclude_lint in
      case dirs fs precommit_config_dir of
        None \<Rightarrow> (fs, Some (OSError precommit_config_dir))
      | Some names \<Rightarrow>
          copy_cfg_loop precommit_config_dir repo_dirname overwrite exclude_lint exclude_regex
            disable_pylint_checks fs names)"

section \<open>print_summary\<close>

text \<open>The levels of \<^verbatim>\<open>logging\<close> that the program uses.\<close>

datatype level = INFO | WARNING | ERROR

text \<open>The dictionary main keeps for one tier.\<close>

record tier_result =
  status :: int
  level :: level
  status_msg :: string

text \<open>
  \<^verbatim>\<open>all_status\<close> is a dictionary in insertion order: a list of pairs with distinct keys.
  \<^verbatim>\<open>d[k] = v\<close> replaces the value of a key that is present and appends a new key.
\<close>

definition dict_set :: "(string \<times> 'v) list \<Rightarrow> string \<Rightarrow> 'v \<Rightarrow> (string \<times> 'v) list" where
  "dict_set d k v =
     (if k \<in> fst ` set d then map (\<lambda>(k', v'). if k' = k then (k', v) else (k', v')) d
      else d @ [(k, v)])"

text \<open>\<^verbatim>\<open>"{:<28}".format(s)\<close>: padded with blanks on the right to 28 characters.\<close>

definition ljust28 :: "string \<Rightarrow> string" where
  "ljust28 s = s @ replicate (28 - length s) (CHR '' '')"

text \<open>
  Lines 197 to 202, one row of the table. \<^verbatim>\<open>logging_colored.colorized_msg\<close> is not
  part of the sources at hand and is a parameter.
\<close>

definition summary_row ::
  "(string \<Rightarrow> level \<Rightarrow> string) \<Rightarrow> string \<Rightarrow> tier_result \<Rightarrow> string" where
  "summary_row colorized_msg test_name test_result =
     (let outcome =
            (if status test_result \<noteq> 0
             then colorized_msg (status_msg test_result) (level test_result)
             else colorized_msg (status_msg test_result) (level test_result))
      in ''| '' @ ljust28 test_name @ outcome)"

text \<open>The result is the text that is logged.\<close>

definition print_summary ::
  "(string \<Rightarrow> level \<Rightarrow> string) \<Rightarrow> (string \<times> tier_result) list \<Rightarrow> string" where
  "print_summary colorized_msg all_status =
     (let summary_msg =
            [''+'' @ replicate 39 (CHR ''=''), ''|  Tests summary:'',
             ''|'' @ replicate 39 (CHR ''-'')]
            @ map (\<lambda>(test_name, test_result). summary_row colorized_msg test_name test_result)
                all_status
            @ [''+'' @ replicate 39 (CHR ''='')]
      in ''Tests summary'' @ [LF] @ join [LF] summary_msg)"

section \<open>main\<close>

text \<open>
  What main takes from outside the program:
  \<^item> \<open>get_repo\<close>: the result of \<^verbatim>\<open>get_repo()\<close>, the absolute path of the repository,
    or \<open>None\<close> when git fails;
  \<^item> \<open>getcwd\<close>: \<^verbatim>\<open>os.path.abspath(os.path.realpath(os.getcwd()))\<close>;
  \<^item> \<open>git_ls_files\<close>: the decoded output of \<^verbatim>\<open>git ls-files -- path\<close>, or \<open>None\<close>
    when git fails;
  \<^item> \<open>package_dir\<close>: the directory of the module;
  \<^item> \<open>relpath\<close>: \<^verbatim>\<open>os.path.relpath\<close>;
  \<^item> \<open>call\<close>: the exit code of a command run by \<^verbatim>\<open>subprocess.call\<close>, which is negative
    when a signal ended the command. Every command main runs differs from the others, so
    a function of the command tells all the exit codes of a run;
  \<^item> \<open>putenv_rejects_empty_name\<close>: whether \<^verbatim>\<open>os.environ\<close> refuses an empty variable
    name with \<^verbatim>\<open>ValueError\<close>, as interpreters from Python 3.9 on do;
  \<^item> \<open>colorized_msg\<close>: \<^verbatim>\<open>logging_colored.colorized_msg\<close>.
\<close>

record world =
  get_repo :: "string option"
  getcwd :: string
  git_ls_files :: "string \<Rightarrow> string option"
  package_dir :: string
  relpath :: "string \<Rightarrow> string \<Rightarrow> string"
  call :: "string list \<Rightarrow> int"
  putenv_rejects_empty_name :: bool
  colorized_msg :: "string \<Rightarrow> level \<Rightarrow> string"

text \<open>
  \<^verbatim>\<open>s.splitlines()\<close> on ASCII text: the line boundaries are removed, and \<^verbatim>\<open>\r\n\<close> is
  one boundary.
\<close>

definition is_linebreak :: "char \<Rightarrow> bool" where
  "is_linebreak c = (c \<in> set [LF, CR, VT, FF, CHR 0x1C, CHR 0x1D, CHR 0x1E])"

fun splitlines_from :: "string \<Rightarrow> string \<Rightarrow> string list" where
  "splitlines_from acc [] = (if acc = [] then [] else [acc])"
| "splitlines_from acc [c] = (if is_linebreak c then [acc] else [acc @ [c]])"
| "splitlines_from acc (c # d # cs) =
     (if c = CR \<and> d = LF then acc # splitlines_from [] cs
      else if is_linebreak c then acc # splitlines_from [] (d # cs)
      else splitlines_from (acc @ [c]) (d # cs))"

definition splitlines :: "string \<Rightarrow> string list" where
  "splitlines s = splitlines_from [] s"

text \<open>Lines 25 to 28.\<close>

definition get_files :: "world \<Rightarrow> string \<Rightarrow> error + string list" where
  "get_files x path =
     (case git_ls_files x path of
        None \<Rightarrow> Inl CalledProcessError
      | Some out \<Rightarrow> Inr (splitlines (strip out)))"

text \<open>\<^verbatim>\<open>os.environ.get(k, dflt)\<close>\<close>

definition environ_get :: "(string \<rightharpoonup> string) \<Rightarrow> string \<Rightarrow> string \<Rightarrow> string" where
  "environ_get environ k dflt = (case environ k of None \<Rightarrow> dflt | Some v \<Rightarrow> v)"

text \<open>
  What a run of main shows: the commands given to \<^verbatim>\<open>subprocess_call\<close>, in order; the
  dictionary \<^verbatim>\<open>all_status\<close>; the summary logged, if the run gets there; and how the run
  ends. The files that main copies are described by \<open>copy_cfg_files\<close>.
\<close>

datatype outcome = Exit int | Returned | Raised error

record run =
  calls :: "string list list"
  all_status :: "(string \<times> tier_result) list"
  summary :: "string option"
  outcome :: outcome

definition raised :: "string list list \<Rightarrow> error \<Rightarrow> run" where
  "raised cs e = \<lparr>calls = cs, all_status = [], summary = None, outcome = Raised e\<rparr>"

text \<open>Lines 127 to 136: the command of the checks, with the files it is to look at.\<close>

definition run_cmd :: "world \<Rightarrow> string \<Rightarrow> string \<Rightarrow> error + string list" where
  "run_cmd x repo_dirname cwd =
     (let cmd = [''pre-commit'', ''run'', ''--color=always''] in
      if cwd \<noteq> repo_dirname
      then
        (let cwd_short = relpath x cwd repo_dirname in
         case get_files x cwd of
           Inl e \<Rightarrow> Inl e
         | Inr fnames \<Rightarrow>
             if fnames = []
             then Inl (UserWarning (''Not files detected in current path '' @ cwd_short))
             else Inr (cmd @ [''--files''] @ fnames))
      else Inr (cmd @ [''--all'']))"

text \<open>
  Lines 126 to 189. \<open>installs\<close> are the commands run before, to install the hooks.
\<close>

definition main_checks ::
  "world \<Rightarrow> string \<Rightarrow> string \<Rightarrow> bool \<Rightarrow> string list list \<Rightarrow> bool \<Rightarrow> run" where
  "main_checks x repo_dirname cwd enable_auto_fix installs do_exit =
     (let pre_commit_cfg_mandatory = os_path_join repo_dirname ''.pre-commit-config.yaml'';
          pre_commit_cfg_optional = os_path_join repo_dirname ''.pre-commit-config-optional.yaml'';
          pre_commit_cfg_autofix = os_path_join repo_dirname ''.pre-commit-config-autofix.yaml'';
          status0 = (0::int)
      in
      case run_cmd x repo_dirname cwd of
        Inl e \<Rightarrow> raised installs e
      | Inr cmd \<Rightarrow>
         (let autofix_cmd = cmd @ [''-c'', pre_commit_cfg_autofix];
              autofix_status = call x autofix_cmd;
              calls1 = (if enable_auto_fix then installs @ [autofix_cmd] else installs);
              status1 = (if enable_auto_fix then status0 + autofix_status else status0);
              all_status1 =
                (if enable_auto_fix
                 then dict_set [] ''Autofix checks''
                        (if autofix_status \<noteq> 0
                         then \<lparr>status = autofix_status, level = ERROR,
                               status_msg = ''Reformatted''\<rparr>
                         else \<lparr>status = autofix_status, level = INFO,
                               status_msg = ''Passed''\<rparr>)
                 else []);
              mandatory_cmd = cmd @ [''-c'', pre_commit_cfg_mandatory];
              mandatory_status = call x mandatory_cmd;
              status2 = status1 + mandatory_status;
              all_status2 =
                dict_set all_status1 ''Mandatory checks''
                  (if status2 \<noteq> 0
                   then \<lparr>status = mandatory_status, level = ERROR, status_msg = ''Failed''\<rparr>
                   else \<lparr>status = mandatory_status, level = INFO, status_msg = ''Passed''\<rparr>);
              optional_cmd = cmd @ [''-c'', os_path_join repo_dirname pre_commit_cfg_optional];
              status_optional = call x optional_cmd;
              all_status3 =
                dict_set all_status2 ''Optional checks''
                  (if status_optional \<noteq> 0
                   then \<lparr>status = status_optional, level = WARNING, status_msg = ''Failed''\<rparr>
                   else \<lparr>status = status_optional, level = INFO, status_msg = ''Passed''\<rparr>)
          in \<lparr>calls = calls1 @ [mandatory_cmd, optional_cmd],
              all_status = all_status3,
              summary = Some (print_summary (colorized_msg x) all_status3),
              outcome = (if do_exit then Exit (if status2 = 0 then 0 else 1) else Returned)\<rparr>))"

text \<open>
  Lines 91 to 124: up to the installation of the hooks. The result is the repository,
  the working directory, whether the autofix tier is enabled, and the commands run; or
  the exception raised. The exit codes of the installation commands are not looked at.
\<close>

definition main_setup ::
  "world \<Rightarrow> filesystem \<Rightarrow> (string \<rightharpoonup> string) \<Rightarrow> error + (string \<times> string \<times> bool \<times> string list list)" where
  "main_setup x fs environ =
     (case get_repo x of
        None \<Rightarrow> Inl CalledProcessError
      | Some repo_dirname \<Rightarrow>
         (let cwd = getcwd x;
              envdict = envfile2envdict fs repo_dirname ''variables.sh''
          in
          if putenv_rejects_empty_name x \<and> envdict [] \<noteq> None then Inl ValueError
          else
            (let environ1 = environ ++ envdict;
                 overwrite = (environ_get environ1 ''PRECOMMIT_OVERWRITE_CONFIG_FILES'' ''1'' = ''1'');
                 exclude_lint = environ_get environ1 ''EXCLUDE_LINT'' [];
                 disable_pylint_checks = environ_get environ1 ''DISABLE_PYLINT_CHECKS'' [];
                 enable_auto_fix = (environ_get environ1 ''PRECOMMIT_AUTOFIX'' [] = ''1'');
                 root_dir = package_dir x;
                 precommit_config_dir = os_path_join root_dir ''cfg''
             in
             case copy_cfg_files precommit_config_dir repo_dirname overwrite exclude_lint
                    disable_pylint_checks fs of
               (fs1, Some e) \<Rightarrow> Inl e
             | (fs1, None) \<Rightarrow>
                (let cmd = [''pre-commit'', ''install-hooks'', ''--color=always''];
                     pre_commit_cfg_mandatory =
                       os_path_join repo_dirname ''.pre-commit-config.yaml'';
                     pre_commit_cfg_optional =
                       os_path_join repo_dirname ''.pre-commit-config-optional.yaml'';
                     pre_commit_cfg_autofix =
                       os_path_join repo_dirname ''.pre-commit-config-autofix.yaml'';
                     installs =
                       [cmd @ [''-c'', pre_commit_cfg_mandatory],
                        cmd @ [''-c'', pre_commit_cfg_optional]]
                       @ (if enable_auto_fix then [cmd @ [''-c'', pre_commit_cfg_autofix]]
                          else [])
                 in Inr (repo_dirname, cwd, enable_auto_fix, installs)))))"

definition main :: "world \<Rightarrow> filesystem \<Rightarrow> (string \<rightharpoonup> string) \<Rightarrow> bool \<Rightarrow> run" where
  "main x fs environ do_exit =
     (case main_setup x fs environ of
        Inl e \<Rightarrow> raised [] e
      | Inr (repo_dirname, cwd, enable_auto_fix, installs) \<Rightarrow>
          main_checks x repo_dirname cwd enable_auto_fix installs do_exit)"

section \<open>Properties of the parser\<close>

lemmas char_class_defs = is_word_def is_blank_def is_quote_def is_value_char_def

lemmas matcher_defs =
  re_export_match_def re_export_assignment_def alt_def lit_def plus_cls_def opt_cls_def
  startswith_def

subsection \<open>Concrete lines\<close>

text \<open>
  C7. For the line \<^verbatim>\<open>export FOO = "bar"\<close> (with or without its newline) the loop of
  envfile2envdict stores \<^verbatim>\<open>bar\<close>, without the quote characters, under \<^verbatim>\<open>FOO\<close>; the
  line \<^verbatim>\<open>echo hi\<close> leaves the dictionary as it is; and a file made of both lines gives
  the dictionary with the single entry \<^verbatim>\<open>FOO\<close>.
\<close>

theorem envfile2envdict_export_foo:
  \<open>envfile_loop m [''export FOO = "bar"'' @ [LF]] = m(''FOO'' \<mapsto> ''bar'')
   \<and> envfile_loop m [''export FOO = "bar"''] = m(''FOO'' \<mapsto> ''bar'')
   \<and> envfile_loop m [''echo hi'' @ [LF]] = m
   \<and> envfile2envdict
        \<lparr>files = [''/repo/variables.sh'' \<mapsto> ''export FOO = "bar"'' @ [LF] @ ''echo hi'' @ [LF]],
         dirs = Map.empty\<rparr> ''/repo'' ''variables.sh'' = [''FOO'' \<mapsto> ''bar'']\<close>
  by (simp add: envfile2envdict_def os_path_join_def readlines_def matcher_defs char_class_defs)

text \<open>
  C9. The variable part of the pattern accepts no character at all: for the line
  \<^verbatim>\<open>export =1\<close> the dictionary returned has the empty string as a key.
\<close>

theorem envfile2envdict_empty_name:
  "envfile2envdict
     \<lparr>files = [''/repo/variables.sh'' \<mapsto> ''export =1'' @ [LF]], dirs = Map.empty\<rparr>
     ''/repo'' ''variables.sh'' = [[] \<mapsto> ''1'']
   \<and> [] \<in> dom (envfile_loop m [''export =1''])"
  by (simp add: envfile2envdict_def os_path_join_def readlines_def matcher_defs char_class_defs)

subsection \<open>The lines the pattern accepts\<close>

text \<open>
  A repetition of a character class followed by a continuation that succeeds on the
  longest repetition: the greedy choice is the match, no backtracking takes place.
\<close>

lemma star_cls_greedy:
  "k (takeWhile P s) (dropWhile P s) = Some x \<Longrightarrow> star_cls P s k = Some x"
  by (induction s arbitrary: k) auto

lemma star_cls_prefix:
  assumes "list_all P m" and "r = [] \<or> \<not> P (hd r)" and "k m r = Some x"
  shows "star_cls P (m @ r) k = Some x"
proof -
  from assms(1) have all: "\<And>c. c \<in> set m \<Longrightarrow> P c"
    by (simp add: list_all_iff)
  from assms(2) have stop: "takeWhile P r = [] \<and> dropWhile P r = r"
    by (cases r) auto
  have "takeWhile P (m @ r) = m" "dropWhile P (m @ r) = r"
    using all stop by (simp_all add: takeWhile_append2 dropWhile_append2)
  with assms(3) show ?thesis
    by (simp add: star_cls_greedy)
qed

lemma opt_cls_always: "opt_cls P s (\<lambda>_ _. Some x) = Some x"
  by (cases s) (simp_all add: opt_cls_def)

lemma opt_cls_skip: "s = [] \<or> \<not> P (hd s) \<Longrightarrow> opt_cls P s k = k [] s"
  by (cases s) (auto simp: opt_cls_def)

lemma opt_cls_take: "P c \<Longrightarrow> k [c] s = Some x \<Longrightarrow> opt_cls P (c # s) k = Some x"
  by (simp add: opt_cls_def)

lemma value_char_not_quote: "is_value_char c \<Longrightarrow> \<not> is_quote c"
  by (auto simp: char_class_defs)

lemma blank_not_word: "is_blank c \<Longrightarrow> \<not> is_word c"
  by (auto simp: char_class_defs)

lemma list_all_blank_replicate: "list_all is_blank (replicate n (CHR '' ''))"
  by (simp add: list_all_iff is_blank_def)

text \<open>From the equals sign on.\<close>

lemma match_from_equals:
  assumes val: "list_all is_value_char val" "\<not> startswith val '' ''"
    and q: "q = [] \<and> val \<noteq> [] \<or> q = [DQ] \<or> q = [SQ]"
    and tail: "tail = [] \<or> \<not> is_value_char (hd tail)"
  shows "lit ''='' (CHR ''='' # replicate n3 (CHR '' '') @ q @ val @ tail) (\<lambda>r4.
     star_cls is_blank r4 (\<lambda>_ r5.
     opt_cls is_quote r5 (\<lambda>_ r6.
     star_cls is_value_char r6 (\<lambda>value r7.
     opt_cls is_quote r7 (\<lambda>_ _.
     Some (variable, value)))))) = Some (variable, val)"
proof -
  let ?K8 = "\<lambda>value r7. opt_cls is_quote r7 (\<lambda>_ _. Some (variable, value))"
  let ?K7 = "\<lambda>(_::string) r6. star_cls is_value_char r6 ?K8"
  let ?K6 = "\<lambda>(_::string) r5. opt_cls is_quote r5 ?K7"
  have s8: "star_cls is_value_char (val @ tail) ?K8 = Some (variable, val)"
    using val(1) tail by (intro star_cls_prefix) (simp_all add: opt_cls_always)
  have hdval: "val \<noteq> [] \<Longrightarrow> is_value_char (hd val) \<and> \<not> is_blank (hd val)"
    using val by (cases val) (auto simp: startswith_def is_blank_def)
  have s7: "opt_cls is_quote (q @ val @ tail) ?K7 = Some (variable, val)"
    using q
  proof (elim disjE conjE)
    assume "q = []" "val \<noteq> []"
    then show ?thesis
      using hdval s8 by (simp add: opt_cls_skip value_char_not_quote)
  next
    assume "q = [DQ]"
    then show ?thesis using s8 by (simp add: opt_cls_take is_quote_def)
  next
    assume "q = [SQ]"
    then show ?thesis using s8 by (simp add: opt_cls_take is_quote_def)
  qed
  have nb: "q @ val @ tail = [] \<or> \<not> is_blank (hd (q @ val @ tail))"
    using q hdval by (auto simp: is_blank_def)
  have s6: "star_cls is_blank (replicate n3 (CHR '' '') @ q @ val @ tail) ?K6
              = Some (variable, val)"
    using nb s7 by (intro star_cls_prefix) (simp_all add: list_all_blank_replicate)
  show ?thesis
    using s6 by (simp add: lit_def startswith_def)
qed

text \<open>From the variable name on.\<close>

lemma re_export_assignment_form:
  assumes name: "list_all is_word name"
    and val: "list_all is_value_char val" "\<not> startswith val '' ''"
    and q: "q = [] \<and> val \<noteq> [] \<or> q = [DQ] \<or> q = [SQ]"
    and tail: "tail = [] \<or> \<not> is_value_char (hd tail)"
  shows "re_export_assignment
           (name @ replicate n2 (CHR '' '') @ ''='' @ replicate n3 (CHR '' '') @ q @ val @ tail)
         = Some (name, val)"
proof -
  let ?R = "CHR ''='' # replicate n3 (CHR '' '') @ q @ val @ tail"
  have s4: "star_cls is_blank (replicate n2 (CHR '' '') @ ?R) (\<lambda>_ r3.
     lit ''='' r3 (\<lambda>r4.
     star_cls is_blank r4 (\<lambda>_ r5.
     opt_cls is_quote r5 (\<lambda>_ r6.
     star_cls is_value_char r6 (\<lambda>value r7.
     opt_cls is_quote r7 (\<lambda>_ _.
     Some (name, value))))))) = Some (name, val)"
    by (rule star_cls_prefix)
      (simp_all add: list_all_blank_replicate is_blank_def match_from_equals [OF val q tail])
  have nw: "\<not> is_word (hd (replicate n2 (CHR '' '') @ ?R))"
    by (cases n2) (simp_all add: is_word_def)
  show ?thesis
    unfolding re_export_assignment_def
    by (rule star_cls_prefix [OF name]) (use nw s4 in simp_all)
qed

text \<open>The keyword and the first blank.\<close>

lemma re_export_match_keyword:
  "kw = ''export'' \<or> kw = ''EXPORT'' \<Longrightarrow>
   re_export_match (kw @ CHR '' '' # r) = star_cls is_blank r (\<lambda>_ r1. re_export_assignment r1)"
  by (auto simp: re_export_match_def alt_def lit_def plus_cls_def startswith_def is_blank_def
      split: option.splits)

lemma re_export_match_form:
  assumes kw: "kw = ''export'' \<or> kw = ''EXPORT''"
    and name: "list_all is_word name"
    and val: "list_all is_value_char val" "\<not> startswith val '' ''"
    and q: "q = [] \<and> val \<noteq> [] \<or> q = [DQ] \<or> q = [SQ]"
    and tail: "tail = [] \<or> \<not> is_value_char (hd tail)"
  shows "re_export_match
           (kw @ replicate (Suc n1) (CHR '' '') @ name @ replicate n2 (CHR '' '')
              @ ''='' @ replicate n3 (CHR '' '') @ q @ val @ tail) = Some (name, val)"
proof -
  let ?R = "CHR ''='' # replicate n3 (CHR '' '') @ q @ val @ tail"
  have "star_cls is_blank (replicate n1 (CHR '' '') @ name @ replicate n2 (CHR '' '') @ ?R)
          (\<lambda>_ r1. re_export_assignment r1) = Some (name, val)"
  proof (cases name)
    case Nil
    have "star_cls is_blank (replicate (n1 + n2) (CHR '' '') @ ?R)
            (\<lambda>_ r1. re_export_assignment r1) = Some ([], val)"
      using re_export_assignment_form [OF _ val q tail, of "[]" 0 n3]
      by (intro star_cls_prefix) (simp_all add: list_all_blank_replicate is_blank_def)
    then show ?thesis
      using Nil by (simp add: replicate_add)
  next
    case (Cons c cs)
    with name have "\<not> is_blank (hd (name @ replicate n2 (CHR '' '') @ ?R))"
      using blank_not_word by auto
    then show ?thesis
      using re_export_assignment_form [OF name val q tail, of n2 n3]
      by (intro star_cls_prefix) (simp_all add: list_all_blank_replicate)
  qed
  then show ?thesis
    using re_export_match_keyword [OF kw] by simp
qed

text \<open>
  C8, as the code has it. The keyword is spelled \<^verbatim>\<open>export\<close> or \<^verbatim>\<open>EXPORT\<close>, and what
  may stand around the equals sign is any number of blanks (the character U+0020). A line
  made of the keyword, one blank or more, a name of word characters, blanks, the equals
  sign, blanks, an optional quote, a value of the value characters that does not start
  with a blank (and is not empty unless a quote opens it), and then the end of the line
  or a character that no value has (a closing quote, a newline) gives the entry from the
  name to the value.
\<close>

theorem envfile_loop_export_form:
  assumes "kw = ''export'' \<or> kw = ''EXPORT''"
    and "list_all is_word name"
    and "list_all is_value_char val" and "\<not> startswith val '' ''"
    and "q = [] \<and> val \<noteq> [] \<or> q = [DQ] \<or> q = [SQ]"
    and "tail = [] \<or> \<not> is_value_char (hd tail)"
  shows "envfile_loop m
           [kw @ replicate (Suc n1) (CHR '' '') @ name @ replicate n2 (CHR '' '')
              @ ''='' @ replicate n3 (CHR '' '') @ q @ val @ tail] = m(name \<mapsto> val)"
  using re_export_match_form [OF assms] by simp

theorem envfile_loop_export_form_witness:
  "list_all is_word ''FOO'' \<and> list_all is_value_char ''a b'' \<and> \<not> startswith ''a b'' '' ''
   \<and> \<not> is_value_char (hd [SQ, LF])
   \<and> envfile_loop Map.empty
       [''EXPORT'' @ replicate (Suc 1) (CHR '' '') @ ''FOO'' @ replicate 2 (CHR '' '')
          @ ''='' @ replicate 0 (CHR '' '') @ [SQ] @ ''a b'' @ [SQ, LF]] = [''FOO'' \<mapsto> ''a b'']"
proof -
  have h: "list_all is_word ''FOO''" "list_all is_value_char ''a b''"
    "\<not> startswith ''a b'' '' ''" "\<not> is_value_char (hd [SQ, LF])"
    by (simp_all add: char_class_defs startswith_def)
  from h show ?thesis
    using envfile_loop_export_form [of "''EXPORT''" "''FOO''" "''a b''" "[SQ]" "[SQ, LF]"
        Map.empty 1 2 0]
    by simp
qed

text \<open>
  C8 as the claim states it fails: a line with the keyword spelled \<^verbatim>\<open>Export\<close>, and a
  line with tabs around the equals sign, give no entry.
\<close>

theorem envfile_loop_case_tab_counterexample:
  "envfile_loop Map.empty [''Export FOO=1'' @ [LF]] = Map.empty
   \<and> envfile_loop Map.empty [''export FOO'' @ [TAB] @ ''='' @ [TAB] @ ''1'' @ [LF]] = Map.empty"
  by (simp add: matcher_defs char_class_defs)

section \<open>Properties of copy_cfg_files\<close>

subsection \<open>Files that are kept\<close>

text \<open>
  Without overwriting, the only files written are those that did not exist: one copy
  leaves every file that exists with its text.
\<close>

lemma copy_file_keeps:
  assumes "files fs dst = None" and "files fs p = Some t"
  shows "files (fst (copy_file repo fname src dst ex rx d fs)) p = Some t"
proof -
  from assms have "p \<noteq> dst" by auto
  with assms(2) show ?thesis
    by (simp add: copy_file_def Let_def)
qed

lemma copy_cfg_loop_keeps:
  "files fs p = Some t \<Longrightarrow>
   files (fst (copy_cfg_loop dir repo False ex rx d fs names)) p = Some t"
proof (induction names arbitrary: fs)
  case Nil
  then show ?case by simp
next
  case (Cons fname rest)
  let ?src = "os_path_join dir fname" and ?dst = "os_path_join repo fname"
  show ?case
  proof (cases "(\<not> startswith fname ''.'' \<and> fname \<noteq> ''pyproject.toml'')
                \<or> \<not> isfile fs ?src \<or> isfile fs ?dst")
    case True
    then show ?thesis
      using Cons by (auto simp: Let_def)
  next
    case False
    then have none: "files fs ?dst = None"
      by (simp add: isfile_def)
    obtain fs' e where cf: "copy_file repo fname ?src ?dst ex rx d fs = (fs', e)"
      by (cases "copy_file repo fname ?src ?dst ex rx d fs")
    have keep: "files fs' p = Some t"
      using copy_file_keeps [OF none Cons.prems, of repo fname ?src ex rx d] cf by simp
    show ?thesis
    proof (cases e)
      case None
      then show ?thesis
        using False cf Cons.IH [OF keep] by (auto simp: Let_def)
    next
      case (Some err)
      then show ?thesis
        using False cf keep by (auto simp: Let_def)
    qed
  qed
qed

lemma copy_cfg_files_keeps:
  "files fs p = Some t \<Longrightarrow> files (fst (copy_cfg_files dir repo False ex d fs)) p = Some t"
  by (simp add: copy_cfg_files_def Let_def copy_cfg_loop_keeps split: option.splits)

text \<open>
  C4. With overwrite false, a regular file that exists at the destination path of an
  entry has the same text after the call, whether the call returns or raises.
\<close>

theorem copy_cfg_files_keeps_existing:
  assumes "dst = os_path_join repo_dirname fname" and "isfile fs dst"
  shows "files (fst (copy_cfg_files precommit_config_dir repo_dirname False exclude_lint
                  disable_pylint_checks fs)) dst = files fs dst"
  using assms(2) copy_cfg_files_keeps by (auto simp: isfile_def)

theorem copy_cfg_files_keeps_existing_witness:
  "isfile
     \<lparr>files = [''/t/.pylintrc'' \<mapsto> ''[MASTER]'' @ [LF], ''/t/.flake8'' \<mapsto> ''[flake8]'' @ [LF],
               ''/r/.pylintrc'' \<mapsto> ''custom'' @ [LF]],
      dirs = [''/t'' \<mapsto> [''.pylintrc'', ''.flake8''], ''/r'' \<mapsto> [''.pylintrc'']]\<rparr>
     (os_path_join ''/r'' ''.pylintrc'')
   \<and> files (fst (copy_cfg_files ''/t'' ''/r'' False [] []
        \<lparr>files = [''/t/.pylintrc'' \<mapsto> ''[MASTER]'' @ [LF], ''/t/.flake8'' \<mapsto> ''[flake8]'' @ [LF],
                  ''/r/.pylintrc'' \<mapsto> ''custom'' @ [LF]],
         dirs = [''/t'' \<mapsto> [''.pylintrc'', ''.flake8''], ''/r'' \<mapsto> [''.pylintrc'']]\<rparr>))
       (os_path_join ''/r'' ''.pylintrc'') = Some (''custom'' @ [LF])"
proof -
  let ?fs = "\<lparr>files = [''/t/.pylintrc'' \<mapsto> ''[MASTER]'' @ [LF],
                       ''/t/.flake8'' \<mapsto> ''[flake8]'' @ [LF],
                       ''/r/.pylintrc'' \<mapsto> ''custom'' @ [LF]],
              dirs = [''/t'' \<mapsto> [''.pylintrc'', ''.flake8''], ''/r'' \<mapsto> [''.pylintrc'']]\<rparr>"
  have h: "isfile ?fs (os_path_join ''/r'' ''.pylintrc'')"
    by (simp add: isfile_def os_path_join_def startswith_def)
  have old: "files ?fs (os_path_join ''/r'' ''.pylintrc'') = Some (''custom'' @ [LF])"
    by (simp add: os_path_join_def startswith_def)
  from copy_cfg_files_keeps_existing [OF refl h, of "''/t''" "[]" "[]"] old
  have "files (fst (copy_cfg_files ''/t'' ''/r'' False [] [] ?fs))
          (os_path_join ''/r'' ''.pylintrc'') = Some (''custom'' @ [LF])"
    by (rule trans)
  with h show ?thesis
    by blast
qed

subsection \<open>The exclusion line\<close>

lemma exclude_regex_of_a_b: "exclude_regex_of ''a,b'' = ''(a|b)|''"
  by (simp add: exclude_regex_of_def split_def strip_def is_space_def re_escape_def
      re_special_def)

text \<open>
  C5, as the code has it. In a file whose name starts with \<^verbatim>\<open>.pre-commit-config\<close> and
  with the exclusion list \<^verbatim>\<open>a,b\<close>, what is written for a line that contains the marker
  \<^verbatim>\<open># EXCLUDE_LINT\<close> is the line \<^verbatim>\<open>    (a|b)|\<close>: four blanks, then one group that holds
  the escaped entries joined by \<^verbatim>\<open>|\<close>, then \<^verbatim>\<open>|\<close>, then the newline. The marker is no
  longer in it, whatever the disable-checks token is.
\<close>

theorem patch_line_exclude_a_b:
  assumes "startswith fname ''.pre-commit-config''" and "contains ''# EXCLUDE_LINT'' line"
  shows "patch_line fname ''a,b'' (exclude_regex_of ''a,b'') disable_pylint_checks line
           = ''    (a|b)|'' @ [LF]
         \<and> \<not> contains ''# EXCLUDE_LINT''
               (patch_line fname ''a,b'' (exclude_regex_of ''a,b'') disable_pylint_checks line)"
proof -
  have no: "\<not> contains ''--disable=R0000'' (''    (a|b)|'' @ [LF])"
    "\<not> contains ''# EXCLUDE_LINT'' (''    (a|b)|'' @ [LF])"
    by (simp_all add: startswith_def)
  have "patch_line fname ''a,b'' (exclude_regex_of ''a,b'') disable_pylint_checks line
           = ''    (a|b)|'' @ [LF]"
    using assms no(1) by (simp add: patch_line_def exclude_regex_of_a_b)
  with no(2) show ?thesis by simp
qed

text \<open>
  The witness is the scenario of the specification: the template
  \<^verbatim>\<open>.pre-commit-config.yaml\<close> has the line \<^verbatim>\<open>    # EXCLUDE_LINT\<close>, and the file written
  in the repository has \<^verbatim>\<open>    (a|b)|\<close> in its place.
\<close>

theorem patch_line_exclude_a_b_witness:
  "startswith ''.pre-commit-config.yaml'' ''.pre-commit-config''
   \<and> contains ''# EXCLUDE_LINT'' (''    # EXCLUDE_LINT'' @ [LF])
   \<and> patch_line ''.pre-commit-config.yaml'' ''a,b'' (exclude_regex_of ''a,b'') ''C0114''
        (''    # EXCLUDE_LINT'' @ [LF]) = ''    (a|b)|'' @ [LF]
   \<and> files (fst (copy_cfg_files ''/t'' ''/r'' True ''a,b'' []
        \<lparr>files = [''/t/.pre-commit-config.yaml'' \<mapsto>
                    ''exclude: |'' @ [LF] @ ''    # EXCLUDE_LINT'' @ [LF] @ ''    ^docs/'' @ [LF]],
         dirs = [''/t'' \<mapsto> [''.pre-commit-config.yaml''], ''/r'' \<mapsto> []]\<rparr>))
        ''/r/.pre-commit-config.yaml''
      = Some (''exclude: |'' @ [LF] @ ''    (a|b)|'' @ [LF] @ ''    ^docs/'' @ [LF])"
proof -
  have h: "startswith ''.pre-commit-config.yaml'' ''.pre-commit-config''"
    "contains ''# EXCLUDE_LINT'' (''    # EXCLUDE_LINT'' @ [LF])"
    by (simp_all add: startswith_def)
  have e2e: "files (fst (copy_cfg_files ''/t'' ''/r'' True ''a,b'' []
        \<lparr>files = [''/t/.pre-commit-config.yaml'' \<mapsto>
                    ''exclude: |'' @ [LF] @ ''    # EXCLUDE_LINT'' @ [LF] @ ''    ^docs/'' @ [LF]],
         dirs = [''/t'' \<mapsto> [''.pre-commit-config.yaml''], ''/r'' \<mapsto> []]\<rparr>))
        ''/r/.pre-commit-config.yaml''
      = Some (''exclude: |'' @ [LF] @ ''    (a|b)|'' @ [LF] @ ''    ^docs/'' @ [LF])"
    by (simp add: copy_cfg_files_def exclude_regex_of_a_b copy_file_def isfile_def
        os_path_join_def startswith_def readlines_def patch_line_def Let_def)
  from patch_line_exclude_a_b [OF h, of "''C0114''"] have
    "patch_line ''.pre-commit-config.yaml'' ''a,b'' (exclude_regex_of ''a,b'') ''C0114''
        (''    # EXCLUDE_LINT'' @ [LF]) = ''    (a|b)|'' @ [LF]" ..
  with h e2e show ?thesis
    by blast
qed

text \<open>
  C5 as the claim states it fails: the line written is not \<^verbatim>\<open>    (a)|(b)|\<close>, with or
  without a newline, and \<^verbatim>\<open>(a)|(b)|\<close> does not occur in it.
\<close>

theorem patch_line_exclude_a_b_counterexample:
  "patch_line ''.pre-commit-config.yaml'' ''a,b'' (exclude_regex_of ''a,b'') []
     (''    # EXCLUDE_LINT'' @ [LF]) \<noteq> ''    (a)|(b)|'' @ [LF]
   \<and> patch_line ''.pre-commit-config.yaml'' ''a,b'' (exclude_regex_of ''a,b'') []
     (''    # EXCLUDE_LINT'' @ [LF]) \<noteq> ''    (a)|(b)|''
   \<and> \<not> contains ''(a)|(b)|''
       (patch_line ''.pre-commit-config.yaml'' ''a,b'' (exclude_regex_of ''a,b'') []
          (''    # EXCLUDE_LINT'' @ [LF]))"
  by (simp add: patch_line_def exclude_regex_of_a_b startswith_def)

subsection \<open>The disabled checks\<close>

text \<open>
  What \<open>replace\<close> does at the first occurrence: the text before it stays, the occurrence
  becomes the new text, and the replacement goes on after it.
\<close>

lemma startswith_shorter:
  assumes "startswith (s @ t) old" and "length old \<le> length s"
  shows "startswith s old"
  using assms by (simp add: startswith_def)

lemma replace_first_occurrence:
  assumes "old \<noteq> []" and "\<not> contains old (pre @ butlast old)"
  shows "replace old new (pre @ old @ post) = pre @ new @ replace old new post"
  using assms
proof (induction pre)
  case Nil
  then show ?case
    by (cases old) (simp_all add: startswith_def)
next
  case (Cons c pre)
  from Cons.prems have ns: "\<not> startswith (c # pre @ butlast old) old"
    and nc: "\<not> contains old (pre @ butlast old)"
    by simp_all
  have len: "length old \<le> length (c # pre @ butlast old)"
    using Cons.prems(1) by (cases old rule: rev_cases) auto
  have split: "c # pre @ old @ post = (c # pre @ butlast old) @ (last old # post)"
    using Cons.prems(1) by (cases old rule: rev_cases) auto
  have "\<not> startswith (c # pre @ old @ post) old"
    using ns len startswith_shorter unfolding split by blast
  with Cons.IH [OF Cons.prems(1) nc] Cons.prems(1) show ?case
    by simp
qed




section \<open>Properties of print_summary\<close>

lemma summary_row_status: "summary_row cm n (r\<lparr>status := s\<rparr>) = summary_row cm n r"
  by (simp add: summary_row_def)

text \<open>
  C10. Two tier results with the same level and the same status message give the same
  row, and the same summary when one stands for the other in \<^verbatim>\<open>all_status\<close>, whatever
  their status fields are (one zero and the other not): both branches of the conditional
  on the status are the same expression.
\<close>

theorem print_summary_ignores_status:
  assumes "level r1 = level r2" and "status_msg r1 = status_msg r2"
  shows "summary_row cm test_name r1 = summary_row cm test_name r2
         \<and> print_summary cm (before @ (test_name, r1) # after)
             = print_summary cm (before @ (test_name, r2) # after)"
  using assms by (simp add: summary_row_def print_summary_def)

theorem print_summary_ignores_status_witness:
  "level \<lparr>status = 0, level = ERROR, status_msg = ''Failed''\<rparr>
     = level \<lparr>status = 1, level = ERROR, status_msg = ''Failed''\<rparr>
   \<and> status_msg \<lparr>status = 0, level = ERROR, status_msg = ''Failed''\<rparr>
     = status_msg \<lparr>status = 1, level = ERROR, status_msg = ''Failed''\<rparr>
   \<and> summary_row (\<lambda>m l. m) ''Mandatory checks''
        \<lparr>status = 0, level = ERROR, status_msg = ''Failed''\<rparr>
     = summary_row (\<lambda>m l. m) ''Mandatory checks''
        \<lparr>status = 1, level = ERROR, status_msg = ''Failed''\<rparr>
   \<and> print_summary (\<lambda>m l. m)
        [(''Mandatory checks'', \<lparr>status = 0, level = ERROR, status_msg = ''Failed''\<rparr>)]
     = print_summary (\<lambda>m l. m)
        [(''Mandatory checks'', \<lparr>status = 1, level = ERROR, status_msg = ''Failed''\<rparr>)]"
  using print_summary_ignores_status
    [of "\<lparr>status = 0, level = ERROR, status_msg = ''Failed''\<rparr>"
        "\<lparr>status = 1, level = ERROR, status_msg = ''Failed''\<rparr>"
        "\<lambda>m l. m" "''Mandatory checks''" "[]" "[]"]
  by simp

section \<open>Properties of main\<close>

text \<open>
  A run that gets through the setup is a run of the checks; the commands run during the
  setup install hooks.
\<close>

lemma main_setup_installs:
  assumes "main_setup x fs environ = Inr (repo_dirname, cwd, enable_auto_fix, installs)"
  shows "\<forall>c \<in> set installs. take 2 c = [''pre-commit'', ''install-hooks'']"
  using assms
  by (auto simp: main_setup_def Let_def split: option.splits if_splits prod.splits)

lemma main_checks_eq:
  assumes "main_setup x fs environ = Inr (repo_dirname, cwd, enable_auto_fix, installs)"
  shows "main x fs environ do_exit
           = main_checks x repo_dirname cwd enable_auto_fix installs do_exit"
  using assms by (simp add: main_def)

lemma main_checks_mandatory:
  assumes "run_cmd x repo_dirname cwd = Inr cmd"
  shows "map_of (all_status (main_checks x repo_dirname cwd enable_auto_fix installs do_exit))
           ''Mandatory checks''
         = Some \<lparr>status = call x (cmd @ [''-c'', os_path_join repo_dirname ''.pre-commit-config.yaml'']),
             level = (if (if enable_auto_fix
                          then call x (cmd @ [''-c'', os_path_join repo_dirname ''.pre-commit-config-autofix.yaml''])
                          else 0)
                         + call x (cmd @ [''-c'', os_path_join repo_dirname ''.pre-commit-config.yaml'']) \<noteq> 0
                      then ERROR else INFO),
             status_msg = (if (if enable_auto_fix
                          then call x (cmd @ [''-c'', os_path_join repo_dirname ''.pre-commit-config-autofix.yaml''])
                          else 0)
                         + call x (cmd @ [''-c'', os_path_join repo_dirname ''.pre-commit-config.yaml'']) \<noteq> 0
                      then ''Failed'' else ''Passed'')\<rparr>"
  using assms by (cases enable_auto_fix) (auto simp: main_checks_def Let_def dict_set_def)

lemma main_checks_outcome:
  assumes "run_cmd x repo_dirname cwd = Inr cmd"
  shows "outcome (main_checks x repo_dirname cwd enable_auto_fix installs True)
         = Exit (if (if enable_auto_fix
                          then call x (cmd @ [''-c'', os_path_join repo_dirname ''.pre-commit-config-autofix.yaml''])
                          else 0)
                         + call x (cmd @ [''-c'', os_path_join repo_dirname ''.pre-commit-config.yaml'']) = 0
                 then 0 else 1)"
  using assms by (simp add: main_checks_def Let_def)

lemma main_checks_no_files:
  assumes "cwd \<noteq> repo_dirname" and "get_files x cwd = Inr []"
  shows "main_checks x repo_dirname cwd enable_auto_fix installs do_exit
         = raised installs (UserWarning (''Not files detected in current path '' @ relpath x cwd repo_dirname))"
  using assms by (simp add: main_checks_def run_cmd_def Let_def)

lemmas run_defs =
  main_setup_def envfile2envdict_def readlines_def environ_get_def copy_cfg_files_def
  exclude_regex_of_def os_path_join_def startswith_def run_cmd_def get_files_def
  splitlines_def strip_def is_space_def Let_def

subsection \<open>The exit code\<close>

text \<open>
  With \<open>do_exit\<close> true, a run that gets to the checks exits with 0 when the sum of the
  exit codes of the autofix tier (if enabled) and of the mandatory tier is 0, and with 1
  otherwise. The exit code of the optional tier is not part of it. When none of the two
  exit codes is negative, the sum is 0 exactly when both are.
\<close>

lemma main_exit_code:
  assumes "main_setup x fs environ = Inr (repo_dirname, cwd, enable_auto_fix, installs)"
    and "run_cmd x repo_dirname cwd = Inr cmd"
    and "autofix_status
           = call x (cmd @ [''-c'', os_path_join repo_dirname ''.pre-commit-config-autofix.yaml''])"
    and "mandatory_status
           = call x (cmd @ [''-c'', os_path_join repo_dirname ''.pre-commit-config.yaml''])"
  shows "outcome (main x fs environ True)
           = Exit (if (if enable_auto_fix then autofix_status else 0) + mandatory_status = 0
                   then 0 else 1)"
  unfolding main_checks_eq [OF assms(1)] main_checks_outcome [OF assms(2)] assms(3,4)
  by (rule refl)

lemma main_exit_code_nonneg:
  assumes "main_setup x fs environ = Inr (repo_dirname, cwd, enable_auto_fix, installs)"
    and "run_cmd x repo_dirname cwd = Inr cmd"
    and "autofix_status
           = call x (cmd @ [''-c'', os_path_join repo_dirname ''.pre-commit-config-autofix.yaml''])"
    and "mandatory_status
           = call x (cmd @ [''-c'', os_path_join repo_dirname ''.pre-commit-config.yaml''])"
    and "0 \<le> autofix_status" and "0 \<le> mandatory_status"
  shows "outcome (main x fs environ True)
           = Exit (if (enable_auto_fix \<longrightarrow> autofix_status = 0) \<and> mandatory_status = 0
                   then 0 else 1)"
  unfolding main_exit_code [OF assms(1-4)] using assms(5,6) by auto

text \<open>
  C1. The claim and the code part where the two exit codes cancel. Here the autofix tier
  is enabled and its command is ended by signal 1, so that \<^verbatim>\<open>subprocess.call\<close> returns
  -1; the mandatory checks fail with exit code 1; the optional checks pass. The sum is 0
  and main exits with 0, where the claim has 1.
\<close>

theorem main_exit_code_cancels:
  "(let x = \<lparr>get_repo = Some ''/r'', getcwd = ''/r'', git_ls_files = (\<lambda>_. Some []),
             package_dir = ''/p'', relpath = (\<lambda>a b. a),
             call = (\<lambda>c. if c = [''pre-commit'', ''run'', ''--color=always'', ''--all'', ''-c'',
                                  ''/r/.pre-commit-config-autofix.yaml''] then - 1
                           else if c = [''pre-commit'', ''run'', ''--color=always'', ''--all'', ''-c'',
                                  ''/r/.pre-commit-config.yaml''] then 1
                           else 0),
             putenv_rejects_empty_name = True, colorized_msg = (\<lambda>m l. m)\<rparr>;
        r = main x \<lparr>files = Map.empty, dirs = [''/p/cfg'' \<mapsto> [], ''/r'' \<mapsto> []]\<rparr>
              [''PRECOMMIT_AUTOFIX'' \<mapsto> ''1''] True
    in calls r
         = [[''pre-commit'', ''install-hooks'', ''--color=always'', ''-c'',
             ''/r/.pre-commit-config.yaml''],
            [''pre-commit'', ''install-hooks'', ''--color=always'', ''-c'',
             ''/r/.pre-commit-config-optional.yaml''],
            [''pre-commit'', ''install-hooks'', ''--color=always'', ''-c'',
             ''/r/.pre-commit-config-autofix.yaml''],
            [''pre-commit'', ''run'', ''--color=always'', ''--all'', ''-c'',
             ''/r/.pre-commit-config-autofix.yaml''],
            [''pre-commit'', ''run'', ''--color=always'', ''--all'', ''-c'',
             ''/r/.pre-commit-config.yaml''],
            [''pre-commit'', ''run'', ''--color=always'', ''--all'', ''-c'',
             ''/r/.pre-commit-config-optional.yaml'']]
       \<and> map (\<lambda>c. call x c) (drop 3 (calls r)) = [- 1, 1, 0]
       \<and> outcome r = Exit 0)"
  by (simp add: main_def main_checks_def run_defs)

subsection \<open>The mandatory tier\<close>

text \<open>
  C2. In a run that gets to the checks, the level and the message recorded for the
  mandatory tier come from the sum of the exit code of the autofix tier (if enabled) and
  that of the mandatory tier: \<open>ERROR\<close> and \<^verbatim>\<open>Failed\<close> when the sum is not 0, \<open>INFO\<close>
  and \<^verbatim>\<open>Passed\<close> otherwise. So with autofix enabled and its exit code not 0, a
  mandatory tier that returned 0 is recorded with \<open>ERROR\<close> and \<^verbatim>\<open>Failed\<close>.
\<close>

theorem main_mandatory_level_cumulative:
  assumes "main_setup x fs environ = Inr (repo_dirname, cwd, enable_auto_fix, installs)"
    and "run_cmd x repo_dirname cwd = Inr cmd"
    and "autofix_status
           = call x (cmd @ [''-c'', os_path_join repo_dirname ''.pre-commit-config-autofix.yaml''])"
    and "mandatory_status
           = call x (cmd @ [''-c'', os_path_join repo_dirname ''.pre-commit-config.yaml''])"
    and "cumulative = (if enable_auto_fix then autofix_status else 0) + mandatory_status"
  shows "map_of (all_status (main x fs environ do_exit)) ''Mandatory checks''
           = Some \<lparr>status = mandatory_status,
                   level = (if cumulative \<noteq> 0 then ERROR else INFO),
                   status_msg = (if cumulative \<noteq> 0 then ''Failed'' else ''Passed'')\<rparr>
         \<and> (enable_auto_fix \<and> autofix_status \<noteq> 0 \<and> mandatory_status = 0 \<longrightarrow>
              map_of (all_status (main x fs environ do_exit)) ''Mandatory checks''
                = Some \<lparr>status = 0, level = ERROR, status_msg = ''Failed''\<rparr>)"
proof -
  have "map_of (all_status (main x fs environ do_exit)) ''Mandatory checks''
           = Some \<lparr>status = mandatory_status,
                   level = (if cumulative \<noteq> 0 then ERROR else INFO),
                   status_msg = (if cumulative \<noteq> 0 then ''Failed'' else ''Passed'')\<rparr>"
    unfolding main_checks_eq [OF assms(1)] main_checks_mandatory [OF assms(2)] assms(3-5)
    by (rule refl)
  then show ?thesis
    using assms(5) by simp
qed

text \<open>
  The witness reads \<^verbatim>\<open>PRECOMMIT_AUTOFIX=1\<close> from \<^verbatim>\<open>variables.sh\<close>; the autofix checks
  return 1 and the mandatory checks 0.
\<close>

theorem main_mandatory_level_cumulative_witness:
  "(let x = \<lparr>get_repo = Some ''/r'', getcwd = ''/r'', git_ls_files = (\<lambda>_. Some []),
             package_dir = ''/p'', relpath = (\<lambda>a b. a),
             call = (\<lambda>c. if c = [''pre-commit'', ''run'', ''--color=always'', ''--all'', ''-c'',
                                  ''/r/.pre-commit-config-autofix.yaml''] then 1 else 0),
             putenv_rejects_empty_name = True, colorized_msg = (\<lambda>m l. m)\<rparr>;
        fs = \<lparr>files = [''/r/variables.sh'' \<mapsto> ''export PRECOMMIT_AUTOFIX=1'' @ [LF]],
              dirs = [''/p/cfg'' \<mapsto> [], ''/r'' \<mapsto> [''variables.sh'']]\<rparr>
    in main_setup x fs Map.empty
         = Inr (''/r'', ''/r'', True,
                [[''pre-commit'', ''install-hooks'', ''--color=always'', ''-c'',
                  ''/r/.pre-commit-config.yaml''],
                 [''pre-commit'', ''install-hooks'', ''--color=always'', ''-c'',
                  ''/r/.pre-commit-config-optional.yaml''],
                 [''pre-commit'', ''install-hooks'', ''--color=always'', ''-c'',
                  ''/r/.pre-commit-config-autofix.yaml'']])
       \<and> run_cmd x ''/r'' ''/r'' = Inr [''pre-commit'', ''run'', ''--color=always'', ''--all'']
       \<and> map_of (all_status (main x fs Map.empty True)) ''Mandatory checks''
           = Some \<lparr>status = 0, level = ERROR, status_msg = ''Failed''\<rparr>)"
proof -
  let ?x = "\<lparr>get_repo = Some ''/r'', getcwd = ''/r'', git_ls_files = (\<lambda>_. Some []),
             package_dir = ''/p'', relpath = (\<lambda>a b. a),
             call = (\<lambda>c. if c = [''pre-commit'', ''run'', ''--color=always'', ''--all'', ''-c'',
                                  ''/r/.pre-commit-config-autofix.yaml''] then 1 else (0::int)),
             putenv_rejects_empty_name = True, colorized_msg = (\<lambda>m l. m)\<rparr>"
  let ?fs = "\<lparr>files = [''/r/variables.sh'' \<mapsto> ''export PRECOMMIT_AUTOFIX=1'' @ [LF]],
              dirs = [''/p/cfg'' \<mapsto> [], ''/r'' \<mapsto> [''variables.sh'']]\<rparr>"
  let ?installs = "[[''pre-commit'', ''install-hooks'', ''--color=always'', ''-c'',
                  ''/r/.pre-commit-config.yaml''],
                 [''pre-commit'', ''install-hooks'', ''--color=always'', ''-c'',
                  ''/r/.pre-commit-config-optional.yaml''],
                 [''pre-commit'', ''install-hooks'', ''--color=always'', ''-c'',
                  ''/r/.pre-commit-config-autofix.yaml'']]"
  have init: "main_setup ?x ?fs Map.empty = Inr (''/r'', ''/r'', True, ?installs)"
    by (simp add: run_defs matcher_defs char_class_defs)
  have cmd: "run_cmd ?x ''/r'' ''/r'' = Inr [''pre-commit'', ''run'', ''--color=always'', ''--all'']"
    by (simp add: run_cmd_def)
  have "map_of (all_status (main ?x ?fs Map.empty True)) ''Mandatory checks''
           = Some \<lparr>status = 0, level = ERROR, status_msg = ''Failed''\<rparr>"
    using main_mandatory_level_cumulative [OF init cmd refl refl refl, of True]
    by (simp add: os_path_join_def startswith_def)
  with init cmd show ?thesis
    unfolding Let_def by blast
qed

subsection \<open>No file under the working directory\<close>

text \<open>
  C3. When the working directory is not the repository and git lists no file under it,
  main raises \<^verbatim>\<open>UserWarning\<close> with the message of line 133. The only commands run are
  those of the setup, which install hooks: no tier is run, nothing is recorded in
  \<^verbatim>\<open>all_status\<close>, and no summary is logged.
\<close>

theorem main_no_files_raises:
  assumes "main_setup x fs environ = Inr (repo_dirname, cwd, enable_auto_fix, installs)"
    and "cwd \<noteq> repo_dirname"
    and "get_files x cwd = Inr []"
  shows "outcome (main x fs environ do_exit)
           = Raised (UserWarning (''Not files detected in current path ''
                                  @ relpath x cwd repo_dirname))
         \<and> calls (main x fs environ do_exit) = installs
         \<and> (\<forall>c \<in> set (calls (main x fs environ do_exit)).
               take 2 c = [''pre-commit'', ''install-hooks''])
         \<and> all_status (main x fs environ do_exit) = []
         \<and> summary (main x fs environ do_exit) = None"
  using main_setup_installs [OF assms(1)]
  unfolding main_checks_eq [OF assms(1)] main_checks_no_files [OF assms(2,3)]
  by (simp add: raised_def)

theorem main_no_files_raises_witness:
  "(let x = \<lparr>get_repo = Some ''/r'', getcwd = ''/r/sub'', git_ls_files = (\<lambda>_. Some [LF]),
             package_dir = ''/p'', relpath = (\<lambda>a b. ''sub''),
             call = (\<lambda>c. 0),
             putenv_rejects_empty_name = True, colorized_msg = (\<lambda>m l. m)\<rparr>;
        fs = \<lparr>files = Map.empty, dirs = [''/p/cfg'' \<mapsto> [], ''/r'' \<mapsto> [''sub'']]\<rparr>
    in ''/r/sub'' \<noteq> ''/r''
       \<and> get_files x ''/r/sub'' = Inr []
       \<and> outcome (main x fs Map.empty True)
           = Raised (UserWarning ''Not files detected in current path sub'')
       \<and> calls (main x fs Map.empty True)
           = [[''pre-commit'', ''install-hooks'', ''--color=always'', ''-c'',
               ''/r/.pre-commit-config.yaml''],
              [''pre-commit'', ''install-hooks'', ''--color=always'', ''-c'',
               ''/r/.pre-commit-config-optional.yaml'']])"
proof -
  let ?x = "\<lparr>get_repo = Some ''/r'', getcwd = ''/r/sub'', git_ls_files = (\<lambda>_. Some [LF]),
             package_dir = ''/p'', relpath = (\<lambda>a b. ''sub''),
             call = (\<lambda>c. (0::int)),
             putenv_rejects_empty_name = True, colorized_msg = (\<lambda>m l. m)\<rparr>"
  let ?fs = "\<lparr>files = Map.empty, dirs = [''/p/cfg'' \<mapsto> [], ''/r'' \<mapsto> [''sub'']]\<rparr>"
  let ?installs = "[[''pre-commit'', ''install-hooks'', ''--color=always'', ''-c'',
               ''/r/.pre-commit-config.yaml''],
              [''pre-commit'', ''install-hooks'', ''--color=always'', ''-c'',
               ''/r/.pre-commit-config-optional.yaml'']]"
  have init: "main_setup ?x ?fs Map.empty = Inr (''/r'', ''/r/sub'', False, ?installs)"
    by (simp add: run_defs)
  have ne: "''/r/sub'' \<noteq> ''/r''"
    by simp
  have nofiles: "get_files ?x ''/r/sub'' = Inr []"
    by (simp add: get_files_def splitlines_def strip_def is_space_def)
  have "outcome (main ?x ?fs Map.empty True)
           = Raised (UserWarning ''Not files detected in current path sub'')
        \<and> calls (main ?x ?fs Map.empty True) = ?installs"
    using main_no_files_raises [OF init ne nofiles, of True]
    by simp
  with ne nofiles show ?thesis
    unfolding Let_def by blast
qed

end
